theory Spec2Isabelle
  imports Main "HOL-Library.Word" "HOL-Library.Signed_Division"
begin

unbundle bit_operations_syntax

section \<open>Machine types and byte-addressed memory\<close>

text \<open>
  The agent is built for a 64-bit Linux process: \<open>size_t\<close>, \<open>uintptr_t\<close> and
  \<open>void*\<close> are 64-bit words whose arithmetic wraps. Memory is a total map from
  addresses to bytes; multi-byte fields are little-endian, as on the host the shared
  region is read on.
\<close>

type_synonym u8 = "8 word"
type_synonym u32 = "32 word"
type_synonym u64 = "64 word"
type_synonym memory = "u64 \<Rightarrow> u8"

definition load_u32 :: "memory \<Rightarrow> u64 \<Rightarrow> u32" where
  "load_u32 m a =
     ucast (m a) OR push_bit 8 (ucast (m (a + 1))) OR
     push_bit 16 (ucast (m (a + 2))) OR push_bit 24 (ucast (m (a + 3)))"

definition store_u32 :: "u64 \<Rightarrow> u32 \<Rightarrow> memory \<Rightarrow> memory" where
  "store_u32 a v m =
     m(a := ucast v, a + 1 := ucast (drop_bit 8 v),
       a + 2 := ucast (drop_bit 16 v), a + 3 := ucast (drop_bit 24 v))"

definition load_u64 :: "memory \<Rightarrow> u64 \<Rightarrow> u64" where
  "load_u64 m a =
     ucast (m a) OR push_bit 8 (ucast (m (a + 1))) OR
     push_bit 16 (ucast (m (a + 2))) OR push_bit 24 (ucast (m (a + 3))) OR
     push_bit 32 (ucast (m (a + 4))) OR push_bit 40 (ucast (m (a + 5))) OR
     push_bit 48 (ucast (m (a + 6))) OR push_bit 56 (ucast (m (a + 7)))"

definition store_u64 :: "u64 \<Rightarrow> u64 \<Rightarrow> memory \<Rightarrow> memory" where
  "store_u64 a v m =
     m(a := ucast v, a + 1 := ucast (drop_bit 8 v),
       a + 2 := ucast (drop_bit 16 v), a + 3 := ucast (drop_bit 24 v),
       a + 4 := ucast (drop_bit 32 v), a + 5 := ucast (drop_bit 40 v),
       a + 6 := ucast (drop_bit 48 v), a + 7 := ucast (drop_bit 56 v))"

text \<open>
  \<open>memcpy\<close> and \<open>memset\<close> of libc, on \<open>n\<close> bytes. \<open>memcpy\<close> reads the source
  bytes from the memory it is given (overlapping regions are undefined in C).
\<close>

definition memcpy :: "memory \<Rightarrow> u64 \<Rightarrow> u64 \<Rightarrow> u64 \<Rightarrow> memory" where
  "memcpy m dst src n = (\<lambda>x. if x - dst < n then m (src + (x - dst)) else m x)"

definition memset :: "memory \<Rightarrow> u64 \<Rightarrow> u8 \<Rightarrow> u64 \<Rightarrow> memory" where
  "memset m dst c n = (\<lambda>x. if x - dst < n then c else m x)"

section \<open>The allocation header (struct AllocationMeta, packed)\<close>

text \<open>
  Packed layout: \<open>magic\<close> (u32) at offset 0, \<open>size\<close> (u64) at 4, \<open>alloc_time\<close> (u64)
  at 12, \<open>last_access\<close> (u64) at 20, \<open>site_id\<close> (u32) at 28, \<open>thread_id\<close> (u32) at 32;
  36 bytes in all. A header is addressed by its base \<open>hdr\<close>.
\<close>

definition sizeof_AllocationMeta :: u64 where
  "sizeof_AllocationMeta = 36"

definition ALLOC_MAGIC :: u32 where
  "ALLOC_MAGIC = 0xDEADBEEF"

definition meta_magic :: "memory \<Rightarrow> u64 \<Rightarrow> u32" where
  "meta_magic m hdr = load_u32 m hdr"

definition meta_size :: "memory \<Rightarrow> u64 \<Rightarrow> u64" where
  "meta_size m hdr = load_u64 m (hdr + 4)"

definition meta_alloc_time :: "memory \<Rightarrow> u64 \<Rightarrow> u64" where
  "meta_alloc_time m hdr = load_u64 m (hdr + 12)"

definition meta_last_access :: "memory \<Rightarrow> u64 \<Rightarrow> u64" where
  "meta_last_access m hdr = load_u64 m (hdr + 20)"

definition meta_site_id :: "memory \<Rightarrow> u64 \<Rightarrow> u32" where
  "meta_site_id m hdr = load_u32 m (hdr + 28)"

definition meta_thread_id :: "memory \<Rightarrow> u64 \<Rightarrow> u32" where
  "meta_thread_id m hdr = load_u32 m (hdr + 32)"

text \<open>\<open>is_valid_allocation\<close>: \<open>meta && meta->magic == ALLOC_MAGIC\<close>.\<close>

definition is_valid_allocation :: "memory \<Rightarrow> u64 \<Rightarrow> bool" where
  "is_valid_allocation m hdr \<longleftrightarrow> hdr \<noteq> 0 \<and> meta_magic m hdr = ALLOC_MAGIC"

text \<open>\<open>get_meta_from_user_ptr\<close>: null for a null pointer, else one header back.\<close>

definition get_meta_from_user_ptr :: "u64 \<Rightarrow> u64" where
  "get_meta_from_user_ptr user_ptr =
     (if user_ptr = 0 then 0 else user_ptr - sizeof_AllocationMeta)"

definition get_user_ptr_from_meta :: "u64 \<Rightarrow> u64" where
  "get_user_ptr_from_meta hdr = hdr + sizeof_AllocationMeta"

section \<open>Events and the shared ring (struct LeakEvent, struct LeakDetectionBuffer)\<close>

datatype EventType = EVENT_MALLOC | EVENT_FREE | EVENT_LEAK_DETECTED | EVENT_ACCESS_PATTERN

fun event_type_code :: "EventType \<Rightarrow> u32" where
  "event_type_code EVENT_MALLOC = 1"
| "event_type_code EVENT_FREE = 2"
| "event_type_code EVENT_LEAK_DETECTED = 3"
| "event_type_code EVENT_ACCESS_PATTERN = 4"

text \<open>
  The payload union: both members are (address, size, a 64-bit time, site id); the time is
  \<open>alloc_time\<close> in the allocation member and \<open>staleness_ns\<close> in the leak member.
\<close>

record event_data =
  data_address :: u64
  data_size :: u64
  data_time :: u64
  data_site_id :: u32

record LeakEvent =
  event_id :: u32
  event_type :: u32
  timestamp :: u64
  thread_id :: u32
  data :: event_data
  is_valid :: u32

definition zero_event :: LeakEvent where
  "zero_event =
     \<lparr>event_id = 0, event_type = 0, timestamp = 0, thread_id = 0,
      data = \<lparr>data_address = 0, data_size = 0, data_time = 0, data_site_id = 0\<rparr>,
      is_valid = 0\<rparr>"

definition LEAK_BUFFER_SIZE :: int where
  "LEAK_BUFFER_SIZE = 1000"

text \<open>
  \<open>write_index\<close> and \<open>read_index\<close> are C \<open>int\<close>s; \<open>%\<close> on them is the truncating
  remainder \<open>smod\<close>. The ring's counters carry the prefix \<open>buf_\<close> where the process has
  a counter of the same name.
\<close>

record LeakDetectionBuffer =
  write_index :: int
  read_index :: int
  buf_total_allocations :: u64
  buf_total_frees :: u64
  current_memory :: u64
  leak_count :: u32
  events :: "int \<Rightarrow> LeakEvent"

text \<open>
  The accesses a publication makes to the shared region, in program order: a store of a
  whole record into a slot, a full memory barrier (\<open>__sync_synchronize\<close>), the increment
  of \<open>write_index\<close>.
\<close>

datatype 'e shm_op = Store_slot int 'e | Full_fence | Advance_write_index

fun exec_shm_op :: "LeakDetectionBuffer \<Rightarrow> LeakEvent shm_op \<Rightarrow> LeakDetectionBuffer" where
  "exec_shm_op b (Store_slot i ev) = b\<lparr>events := (events b)(i := ev)\<rparr>"
| "exec_shm_op b Full_fence = b"
| "exec_shm_op b Advance_write_index = b\<lparr>write_index := write_index b + 1\<rparr>"

section \<open>Process state and environment\<close>

text \<open>
  The live-allocation index \<open>active_allocs\<close> is a C array indexed by \<open>int\<close>, with the
  used prefix bounded by \<open>active_alloc_count\<close>.
\<close>

record alloc_entry =
  address :: u64
  meta :: u64

definition MAX_TRACKED_ALLOCS :: int where
  "MAX_TRACKED_ALLOCS = 10000"

text \<open>
  Calls made to the underlying allocator, in order. A call of the underlying free is
  recorded with the pointer it is given and the 32-bit word it finds at that pointer
  when it is called (for a header base, the header's \<open>magic\<close> field), so that what
  was stored before the call and what after it can be told apart.
\<close>

datatype real_call = Real_malloc u64 | Real_free u64 u32 | Real_realloc u64 u64

record agent =
  mem :: memory
  leak_buffer :: "LeakDetectionBuffer option"
  next_event_id :: u32
  staleness_threshold_ns :: u64
  total_allocations :: u64
  total_frees :: u64
  current_memory_usage :: u64
  active_allocs :: "int \<Rightarrow> alloc_entry"
  active_alloc_count :: int
  ticks :: nat
  real_calls :: "real_call list"

text \<open>
  What the process cannot decide itself: the readings of the monotonic clock (the
  \<open>k\<close>-th reading is \<open>clock_gettime k\<close>, as seconds and nanoseconds), the calling
  thread, the return address seen by \<open>get_call_site_id\<close>, and the pointers the
  underlying allocator hands out, which may depend on every call made to it so far.
  The underlying allocator's own writes to memory are not part of the model; its calls
  are recorded in \<open>real_calls\<close>.
\<close>

record env =
  clock_gettime :: "nat \<Rightarrow> u64 \<times> u64"
  pthread_self :: u64
  return_address :: u64
  real_malloc_result :: "real_call list \<Rightarrow> u64 \<Rightarrow> u64"
  real_realloc_result :: "real_call list \<Rightarrow> u64 \<Rightarrow> u64 \<Rightarrow> u64"

definition get_timestamp_ns :: "env \<Rightarrow> agent \<Rightarrow> u64 \<times> agent" where
  "get_timestamp_ns e s =
     (case clock_gettime e (ticks s) of
        (tv_sec, tv_nsec) \<Rightarrow> (tv_sec * 1000000000 + tv_nsec, s\<lparr>ticks := ticks s + 1\<rparr>))"

definition get_thread_id :: "env \<Rightarrow> u32" where
  "get_thread_id e = ucast (pthread_self e)"

definition get_call_site_id :: "env \<Rightarrow> u32" where
  "get_call_site_id e = ucast (drop_bit 4 (return_address e)) AND 0xFFFF"

definition real_malloc :: "env \<Rightarrow> agent \<Rightarrow> u64 \<Rightarrow> u64 \<times> agent" where
  "real_malloc e s n =
     (real_malloc_result e (real_calls s) n, s\<lparr>real_calls := real_calls s @ [Real_malloc n]\<rparr>)"

definition real_free :: "u64 \<Rightarrow> agent \<Rightarrow> agent" where
  "real_free p s = s\<lparr>real_calls := real_calls s @ [Real_free p (load_u32 (mem s) p)]\<rparr>"

definition real_realloc :: "env \<Rightarrow> agent \<Rightarrow> u64 \<Rightarrow> u64 \<Rightarrow> u64 \<times> agent" where
  "real_realloc e s p n =
     (real_realloc_result e (real_calls s) p n,
      s\<lparr>real_calls := real_calls s @ [Real_realloc p n]\<rparr>)"

section \<open>The live-allocation index\<close>

definition track_allocation :: "agent \<Rightarrow> u64 \<Rightarrow> u64 \<Rightarrow> agent" where
  "track_allocation s user_ptr hdr =
     (if active_alloc_count s < MAX_TRACKED_ALLOCS
      then s\<lparr>active_allocs :=
                (active_allocs s)(active_alloc_count s := \<lparr>address = user_ptr, meta = hdr\<rparr>),
              active_alloc_count := active_alloc_count s + 1\<rparr>
      else s)"

function untrack_loop :: "u64 \<Rightarrow> int \<Rightarrow> agent \<Rightarrow> agent" where
  "untrack_loop user_ptr i s =
     (if i < active_alloc_count s
      then (if address (active_allocs s i) = user_ptr
            then s\<lparr>active_allocs :=
                      (active_allocs s)(i := active_allocs s (active_alloc_count s - 1)),
                    active_alloc_count := active_alloc_count s - 1\<rparr>
            else untrack_loop user_ptr (i + 1) s)
      else s)"
  by pat_completeness auto
termination
  by (relation "measure (\<lambda>(user_ptr, i, s). nat (active_alloc_count s - i))") auto

definition untrack_allocation :: "agent \<Rightarrow> u64 \<Rightarrow> agent" where
  "untrack_allocation s user_ptr = untrack_loop user_ptr 0 s"

text \<open>
  The entries one pass of the scanner reads: \<open>active_allocs[i]\<close> for
  \<open>0 \<le> i < active_alloc_count\<close>, in index order.
\<close>

definition snapshot :: "agent \<Rightarrow> alloc_entry list" where
  "snapshot s = map (\<lambda>i. active_allocs s (int i)) [0..<nat (active_alloc_count s)]"

section \<open>Publication\<close>

definition write_leak_event_ops :: "LeakDetectionBuffer \<Rightarrow> LeakEvent \<Rightarrow> LeakEvent shm_op list" where
  "write_leak_event_ops b ev =
     [Store_slot (write_index b smod LEAK_BUFFER_SIZE) ev, Advance_write_index]"

definition write_leak_event :: "env \<Rightarrow> agent \<Rightarrow> EventType \<Rightarrow> event_data option \<Rightarrow> agent" where
  "write_leak_event e s ty d =
     (case leak_buffer s of
        None \<Rightarrow> s
      | Some b \<Rightarrow>
          (let ev0 = zero_event\<lparr>event_id := next_event_id s\<rparr>;
               s1 = s\<lparr>next_event_id := next_event_id s + 1\<rparr>;
               ev1 = ev0\<lparr>event_type := event_type_code ty\<rparr>;
               (now, s2) = get_timestamp_ns e s1;
               ev2 = ev1\<lparr>timestamp := now, thread_id := ucast (pthread_self e), is_valid := 1\<rparr>;
               ev3 = (case d of None \<Rightarrow> ev2 | Some p \<Rightarrow> ev2\<lparr>data := p\<rparr>)
           in s2\<lparr>leak_buffer := Some (foldl exec_shm_op b (write_leak_event_ops b ev3))\<rparr>))"

section \<open>The interposed entry points\<close>

text \<open>
  \<open>install\<close> is the header initialisation of \<open>malloc\<close> (the six field stores and the
  computation of the user pointer). \<open>last_access\<close> is copied from the \<open>alloc_time\<close> field
  just stored.
\<close>

definition install :: "env \<Rightarrow> agent \<Rightarrow> u64 \<Rightarrow> u64 \<Rightarrow> u64 \<times> agent" where
  "install e s hdr sz =
     (let m1 = store_u32 hdr ALLOC_MAGIC (mem s);
          m2 = store_u64 (hdr + 4) sz m1;
          (now, s1) = get_timestamp_ns e s;
          m3 = store_u64 (hdr + 12) now m2;
          m4 = store_u64 (hdr + 20) (meta_alloc_time m3 hdr) m3;
          m5 = store_u32 (hdr + 28) (get_call_site_id e) m4;
          m6 = store_u32 (hdr + 32) (get_thread_id e) m5
      in (get_user_ptr_from_meta hdr, s1\<lparr>mem := m6\<rparr>))"

definition malloc :: "env \<Rightarrow> agent \<Rightarrow> u64 \<Rightarrow> u64 \<times> agent" where
  "malloc e s sz =
     (if sz = 0 then (0, s)
      else
        (let total_size = sz + sizeof_AllocationMeta;
             (real_ptr, s1) = real_malloc e s total_size
         in if real_ptr = 0 then (0, s1)
            else
              (let (user_ptr, s2) = install e s1 real_ptr sz;
                   s3 = track_allocation s2 user_ptr real_ptr;
                   s4 = s3\<lparr>total_allocations := total_allocations s3 + 1,
                           current_memory_usage := current_memory_usage s3 + sz\<rparr>
               in case leak_buffer s4 of
                    None \<Rightarrow> (user_ptr, s4)
                  | Some b \<Rightarrow>
                      (let s5 = s4\<lparr>leak_buffer :=
                                    Some (b\<lparr>buf_total_allocations := buf_total_allocations b + 1,
                                            current_memory := current_memory b + sz\<rparr>)\<rparr>;
                           alloc_data =
                             \<lparr>data_address = user_ptr, data_size = sz,
                              data_time = meta_alloc_time (mem s5) real_ptr,
                              data_site_id = meta_site_id (mem s5) real_ptr\<rparr>
                       in (user_ptr, write_leak_event e s5 EVENT_MALLOC (Some alloc_data))))))"

definition free :: "env \<Rightarrow> agent \<Rightarrow> u64 \<Rightarrow> agent" where
  "free e s ptr =
     (if ptr = 0 then s
      else
        (let hdr = get_meta_from_user_ptr ptr
         in if \<not> is_valid_allocation (mem s) hdr then real_free ptr s
            else
              (let s1 = s\<lparr>total_frees := total_frees s + 1,
                          current_memory_usage := current_memory_usage s - meta_size (mem s) hdr\<rparr>;
                   s2 = untrack_allocation s1 ptr;
                   s3 = (case leak_buffer s2 of
                           None \<Rightarrow> s2
                         | Some b \<Rightarrow>
                             (let s2' = s2\<lparr>leak_buffer :=
                                            Some (b\<lparr>buf_total_frees := buf_total_frees b + 1,
                                                    current_memory :=
                                                      current_memory b - meta_size (mem s2) hdr\<rparr>)\<rparr>;
                                  free_data =
                                    \<lparr>data_address = ptr, data_size = meta_size (mem s2') hdr,
                                     data_time = meta_alloc_time (mem s2') hdr,
                                     data_site_id = meta_site_id (mem s2') hdr\<rparr>
                              in write_leak_event e s2' EVENT_FREE (Some free_data)));
                   s4 = s3\<lparr>mem := store_u32 hdr 0 (mem s3)\<rparr>
               in real_free hdr s4)))"

definition realloc :: "env \<Rightarrow> agent \<Rightarrow> u64 \<Rightarrow> u64 \<Rightarrow> u64 \<times> agent" where
  "realloc e s ptr sz =
     (if ptr = 0 then malloc e s sz
      else if sz = 0 then (0, free e s ptr)
      else
        (let old_meta = get_meta_from_user_ptr ptr
         in if \<not> is_valid_allocation (mem s) old_meta then real_realloc e s ptr sz
            else
              (let old_size = meta_size (mem s) old_meta;
                   (new_ptr, s1) = malloc e s sz
               in if new_ptr = 0 then (0, s1)
                  else
                    (let copy_size = (if sz < old_size then sz else old_size);
                         s2 = s1\<lparr>mem := memcpy (mem s1) new_ptr ptr copy_size\<rparr>
                     in (new_ptr, free e s2 ptr)))))"

definition calloc :: "env \<Rightarrow> agent \<Rightarrow> u64 \<Rightarrow> u64 \<Rightarrow> u64 \<times> agent" where
  "calloc e s nmemb sz =
     (let total_size = nmemb * sz;
          (ptr, s1) = malloc e s total_size
      in if ptr \<noteq> 0 then (ptr, s1\<lparr>mem := memset (mem s1) ptr 0 total_size\<rparr>)
         else (ptr, s1))"

section \<open>Access updates and the leak scanner\<close>

definition update_allocation_access :: "env \<Rightarrow> agent \<Rightarrow> u64 \<Rightarrow> agent" where
  "update_allocation_access e s addr =
     (if addr = 0 then s
      else
        (let hdr = get_meta_from_user_ptr addr
         in if is_valid_allocation (mem s) hdr
            then (case get_timestamp_ns e s of
                    (now, s1) \<Rightarrow> s1\<lparr>mem := store_u64 (hdr + 20) now (mem s1)\<rparr>)
            else s))"

definition is_potentially_leaked :: "env \<Rightarrow> agent \<Rightarrow> u64 \<Rightarrow> bool \<times> agent" where
  "is_potentially_leaked e s hdr =
     (if \<not> is_valid_allocation (mem s) hdr then (False, s)
      else
        (case get_timestamp_ns e s of
           (now, s1) \<Rightarrow>
             (let staleness = now - meta_last_access (mem s1) hdr
              in (staleness > staleness_threshold_ns s1, s1))))"

text \<open>
  \<open>report_leak\<close> is only called with the ring mapped; the diagnostic line on the error
  stream is not part of the state.
\<close>

definition report_leak :: "env \<Rightarrow> agent \<Rightarrow> u64 \<Rightarrow> u64 \<Rightarrow> agent" where
  "report_leak e s hdr user_ptr =
     (case get_timestamp_ns e s of
        (now, s1) \<Rightarrow>
          (let staleness = now - meta_last_access (mem s1) hdr;
               leak_data =
                 \<lparr>data_address = user_ptr, data_size = meta_size (mem s1) hdr,
                  data_time = staleness, data_site_id = meta_site_id (mem s1) hdr\<rparr>;
               s2 = write_leak_event e s1 EVENT_LEAK_DETECTED (Some leak_data)
           in s2\<lparr>leak_buffer :=
                   map_option (\<lambda>b. b\<lparr>leak_count := leak_count b + 1\<rparr>) (leak_buffer s2)\<rparr>))"

text \<open>
  One iteration of the scanner's loop body on the entry it has read, with the running
  count of leaks found.
\<close>

definition scan_entry :: "env \<Rightarrow> int \<times> agent \<Rightarrow> alloc_entry \<Rightarrow> int \<times> agent" where
  "scan_entry e acc ent =
     (case acc of
        (leaks_found, s) \<Rightarrow>
          (if is_valid_allocation (mem s) (meta ent)
           then (case is_potentially_leaked e s (meta ent) of
                   (leaked, s1) \<Rightarrow>
                     (if leaked then (leaks_found + 1, report_leak e s1 (meta ent) (address ent))
                      else (leaks_found, s1)))
           else (leaks_found, s)))"

text \<open>
  One pass of \<open>leak_scanner_thread\<close> after its sleep. The loop body writes neither the
  index nor its count, so the entries it reads are those of \<open>snapshot\<close>.
\<close>

definition scan_pass :: "env \<Rightarrow> agent \<Rightarrow> int \<times> agent" where
  "scan_pass e s =
     (case leak_buffer s of
        None \<Rightarrow> (0, s)
      | Some b \<Rightarrow> foldl (scan_entry e) (0, s) (snapshot s))"

section \<open>Start-up\<close>

text \<open>The globals as the loader leaves them, over whatever memory the process has.\<close>

definition static_init :: "memory \<Rightarrow> agent" where
  "static_init m =
     \<lparr>mem = m, leak_buffer = None, next_event_id = 1,
      staleness_threshold_ns = 3000000000,
      total_allocations = 0, total_frees = 0, current_memory_usage = 0,
      active_allocs = (\<lambda>i. \<lparr>address = 0, meta = 0\<rparr>), active_alloc_count = 0,
      ticks = 0, real_calls = []\<rparr>"

definition zero_buffer :: LeakDetectionBuffer where
  "zero_buffer =
     \<lparr>write_index = 0, read_index = 0, buf_total_allocations = 0, buf_total_frees = 0,
      current_memory = 0, leak_count = 0, events = (\<lambda>i. zero_event)\<rparr>"

text \<open>
  \<open>advanced_agent_init\<close>: the ring is mapped and zeroed when the shared region could be
  created, sized and mapped (\<open>shm_ok\<close>); otherwise \<open>leak_buffer\<close> stays null.
\<close>

definition advanced_agent_init :: "bool \<Rightarrow> agent \<Rightarrow> agent" where
  "advanced_agent_init shm_ok s =
     (if shm_ok then s\<lparr>leak_buffer := Some zero_buffer\<rparr> else s)"

text \<open>The states the process can be in: start-up, then any calls of the entry points.\<close>

inductive reachable :: "agent \<Rightarrow> bool" where
  start: "reachable (static_init m)"
| init: "reachable s \<Longrightarrow> reachable (advanced_agent_init shm_ok s)"
| malloc_step: "reachable s \<Longrightarrow> reachable (snd (malloc e s sz))"
| free_step: "reachable s \<Longrightarrow> reachable (free e s ptr)"
| realloc_step: "reachable s \<Longrightarrow> reachable (snd (realloc e s ptr sz))"
| calloc_step: "reachable s \<Longrightarrow> reachable (snd (calloc e s nmemb sz))"

text \<open>
  The consistency of the index: the count is within the array, and every entry of the
  used prefix holds a user pointer one header above its header pointer.
\<close>

definition index_consistent :: "agent \<Rightarrow> bool" where
  "index_consistent s \<longleftrightarrow>
     0 \<le> active_alloc_count s \<and> active_alloc_count s \<le> MAX_TRACKED_ALLOCS \<and>
     list_all (\<lambda>ent. address ent = meta ent + sizeof_AllocationMeta) (snapshot s)"

section \<open>The basic monitor (monitor/agent.cpp)\<close>

record AllocationData =
  ad_malloc_count :: u32
  ad_size :: u64
  ad_total_bytes :: u64
  ad_timestamp :: u64
  ad_is_valid :: u32

definition BUFFER_SIZE :: int where
  "BUFFER_SIZE = 1000"

record SharedBuffer =
  sb_write_index :: int
  sb_read_index :: int
  allocations :: "int \<Rightarrow> AllocationData"

fun exec_monitor_op :: "SharedBuffer \<Rightarrow> AllocationData shm_op \<Rightarrow> SharedBuffer" where
  "exec_monitor_op b (Store_slot i d) = b\<lparr>allocations := (allocations b)(i := d)\<rparr>"
| "exec_monitor_op b Full_fence = b"
| "exec_monitor_op b Advance_write_index = b\<lparr>sb_write_index := sb_write_index b + 1\<rparr>"

definition write_to_shared_memory_ops ::
    "SharedBuffer \<Rightarrow> AllocationData \<Rightarrow> AllocationData shm_op list" where
  "write_to_shared_memory_ops b d =
     [Store_slot (sb_write_index b smod BUFFER_SIZE) d, Full_fence, Advance_write_index]"

text \<open>\<open>now\<close> is the value of \<open>time(NULL)\<close>.\<close>

definition write_to_shared_memory ::
    "u64 \<Rightarrow> SharedBuffer option \<Rightarrow> u32 \<Rightarrow> u64 \<Rightarrow> u64 \<Rightarrow> SharedBuffer option" where
  "write_to_shared_memory now shared_buffer cnt sz total_bytes =
     (case shared_buffer of
        None \<Rightarrow> None
      | Some b \<Rightarrow>
          (let d = \<lparr>ad_malloc_count = cnt, ad_size = sz, ad_total_bytes = total_bytes,
                    ad_timestamp = now, ad_is_valid = 1\<rparr>
           in Some (foldl exec_monitor_op b (write_to_shared_memory_ops b d))))"

section \<open>A concrete environment and memory\<close>

text \<open>
  An environment for concrete runs: the clock advances one second per reading, and the
  underlying allocator hands out blocks \<open>0x1000\<close> apart, one per call made to it.
\<close>

definition demo_env :: env where
  "demo_env =
     \<lparr>clock_gettime = (\<lambda>k. (of_nat k, 500)), pthread_self = 7, return_address = 0x401230,
      real_malloc_result = (\<lambda>calls n. 0x1000 + 0x1000 * of_nat (length calls)),
      real_realloc_result = (\<lambda>calls p n. 0x9000)\<rparr>"

text \<open>The same environment with an underlying allocator that is out of memory.\<close>

definition null_env :: env where
  "null_env = demo_env\<lparr>real_malloc_result := (\<lambda>calls n. 0)\<rparr>"

definition zero_memory :: memory where
  "zero_memory = (\<lambda>a. 0)"

text \<open>A state whose index is at capacity.\<close>

definition full_index :: agent where
  "full_index = (static_init zero_memory)\<lparr>active_alloc_count := 10000\<rparr>"

text \<open>The state after one successful \<open>malloc(64)\<close> from start-up: one block at \<open>0x1000\<close>.\<close>

definition one_block :: agent where
  "one_block = snd (malloc demo_env (static_init zero_memory) 64)"

section \<open>Memory lemmas\<close>

lemma load_store_u32: "load_u32 (store_u32 a v m) a = v"
proof (rule bit_word_eqI)
  fix n assume "n < LENGTH(32)"
  then show "bit (load_u32 (store_u32 a v m) a) n = bit v n"
    unfolding load_u32_def store_u32_def
    by (cases "n < 8"; cases "n < 16"; cases "n < 24") (auto simp add: bit_simps)
qed


section \<open>Header round trip\<close>

text \<open>
  C5. For every header base \<open>hdr\<close> whose user pointer is not null, every size,
  environment (clock, call site, thread) and state, \<open>install\<close> returns the user pointer
  \<open>hdr + sizeof(header)\<close>, and \<open>get_meta_from_user_ptr\<close> applied to that user pointer
  gives \<open>hdr\<close> back: the conversion is an exact constant-offset round trip. (The one
  excluded base is \<open>2^64 - 36\<close>, whose header would end exactly at the top of the address
  space; there the user pointer wraps to null.)
\<close>

theorem header_round_trip:
  assumes "hdr + sizeof_AllocationMeta \<noteq> 0"
  shows "fst (install e s hdr sz) = hdr + sizeof_AllocationMeta \<and>
         get_meta_from_user_ptr (fst (install e s hdr sz)) = hdr"
proof -
  have "fst (install e s hdr sz) = hdr + sizeof_AllocationMeta"
    by (simp add: install_def get_user_ptr_from_meta_def Let_def split: prod.splits)
  then show ?thesis
    using assms by (simp add: get_meta_from_user_ptr_def)
qed

theorem header_round_trip_witness:
  "(0x1000 :: u64) + sizeof_AllocationMeta \<noteq> 0 \<and>
   fst (install demo_env (static_init zero_memory) 0x1000 64) = 0x1024 \<and>
   get_meta_from_user_ptr (fst (install demo_env (static_init zero_memory) 0x1000 64)) = 0x1000"
proof -
  have h: "(0x1000 :: u64) + sizeof_AllocationMeta \<noteq> 0"
    by (simp add: sizeof_AllocationMeta_def)
  show ?thesis
    using h header_round_trip [OF h, of demo_env "static_init zero_memory" 64]
    by (auto simp add: sizeof_AllocationMeta_def)
qed

section \<open>Adding to the index\<close>

lemma snapshot_track:
  assumes "0 \<le> active_alloc_count s" "active_alloc_count s < MAX_TRACKED_ALLOCS"
  shows "snapshot (track_allocation s u h) = snapshot s @ [\<lparr>address = u, meta = h\<rparr>]"
proof -
  have "nat (active_alloc_count s + 1) = Suc (nat (active_alloc_count s))"
    using assms(1) by simp
  then show ?thesis
    using assms by (simp add: snapshot_def track_allocation_def)
qed

text \<open>
  C6. With the count non-negative, \<open>track_allocation\<close> appends the pair to the used
  prefix and increments the count exactly when the count is strictly below 10000;
  otherwise it returns the state unchanged. In both cases every entry the scanner's
  snapshot held before is still in the snapshot afterwards.
\<close>

theorem track_allocation_add:
  assumes "0 \<le> active_alloc_count s"
  shows "(active_alloc_count s < 10000 \<longrightarrow>
            snapshot (track_allocation s u h) = snapshot s @ [\<lparr>address = u, meta = h\<rparr>] \<and>
            active_alloc_count (track_allocation s u h) = active_alloc_count s + 1) \<and>
         (\<not> active_alloc_count s < 10000 \<longrightarrow> track_allocation s u h = s) \<and>
         set (snapshot s) \<subseteq> set (snapshot (track_allocation s u h))"
proof (cases "active_alloc_count s < 10000")
  case True
  then have lt: "active_alloc_count s < MAX_TRACKED_ALLOCS"
    by (simp add: MAX_TRACKED_ALLOCS_def)
  have "active_alloc_count (track_allocation s u h) = active_alloc_count s + 1"
    using lt by (simp add: track_allocation_def)
  then show ?thesis
    using True snapshot_track [OF assms lt, of u h] by auto
next
  case False
  then have "track_allocation s u h = s"
    by (simp add: track_allocation_def MAX_TRACKED_ALLOCS_def)
  then show ?thesis
    using False by simp
qed

theorem track_allocation_add_witness:
  "0 \<le> active_alloc_count (static_init zero_memory) \<and>
   snapshot (track_allocation (static_init zero_memory) 0x1024 0x1000) =
     [\<lparr>address = 0x1024, meta = 0x1000\<rparr>] \<and>
   0 \<le> active_alloc_count full_index \<and>
   track_allocation full_index 0x1024 0x1000 = full_index"
proof -
  have a: "0 \<le> active_alloc_count (static_init zero_memory)"
    by (simp add: static_init_def)
  have b: "0 \<le> active_alloc_count full_index"
    by (simp add: full_index_def)
  have c: "snapshot (static_init zero_memory) = []"
    by (simp add: snapshot_def static_init_def)
  show ?thesis
    using a b c track_allocation_add [OF a, of "0x1024" "0x1000"]
      track_allocation_add [OF b, of "0x1024" "0x1000"]
    by (simp add: static_init_def full_index_def)
qed

section \<open>Failure of the underlying allocator\<close>

text \<open>
  C3. For every non-zero size, if the underlying allocator returns null for the request
  of \<open>size + sizeof(header)\<close> bytes, \<open>malloc\<close> returns null and leaves the ring (its
  events, write index and counters), the event id counter, the index and its count, the
  local counters and memory as they were: the only trace is the call made to the
  underlying allocator.
\<close>

theorem malloc_real_null:
  assumes "sz \<noteq> 0"
    and "real_malloc_result e (real_calls s) (sz + sizeof_AllocationMeta) = 0"
  shows "fst (malloc e s sz) = 0 \<and>
         leak_buffer (snd (malloc e s sz)) = leak_buffer s \<and>
         next_event_id (snd (malloc e s sz)) = next_event_id s \<and>
         active_allocs (snd (malloc e s sz)) = active_allocs s \<and>
         active_alloc_count (snd (malloc e s sz)) = active_alloc_count s \<and>
         total_allocations (snd (malloc e s sz)) = total_allocations s \<and>
         current_memory_usage (snd (malloc e s sz)) = current_memory_usage s \<and>
         mem (snd (malloc e s sz)) = mem s \<and>
         snd (malloc e s sz) =
           s\<lparr>real_calls := real_calls s @ [Real_malloc (sz + sizeof_AllocationMeta)]\<rparr>"
  using assms by (simp add: malloc_def real_malloc_def)

theorem malloc_real_null_witness:
  "(64 :: u64) \<noteq> 0 \<and>
   real_malloc_result null_env (real_calls (static_init zero_memory))
     (64 + sizeof_AllocationMeta) = 0 \<and>
   fst (malloc null_env (static_init zero_memory) 64) = 0 \<and>
   leak_buffer (snd (malloc null_env (static_init zero_memory) 64)) = None \<and>
   active_alloc_count (snd (malloc null_env (static_init zero_memory) 64)) = 0 \<and>
   total_allocations (snd (malloc null_env (static_init zero_memory) 64)) = 0"
proof -
  have a: "(64 :: u64) \<noteq> 0"
    by simp
  have b: "real_malloc_result null_env (real_calls (static_init zero_memory))
             (64 + sizeof_AllocationMeta) = 0"
    by (simp add: null_env_def)
  show ?thesis
    using a b malloc_real_null [OF a b] by (simp add: static_init_def)
qed

section \<open>Freeing a pointer that is not ours\<close>

text \<open>
  C4. For every non-null pointer whose preceding header does not carry the magic
  \<open>0xDEADBEEF\<close>, \<open>free\<close> passes the pointer itself to the underlying free (which
  finds memory as it was) and changes nothing else: no event, no counter, no change to the
  index.
\<close>

theorem free_foreign:
  assumes "ptr \<noteq> 0"
    and "meta_magic (mem s) (ptr - sizeof_AllocationMeta) \<noteq> ALLOC_MAGIC"
  shows "free e s ptr =
           s\<lparr>real_calls := real_calls s @ [Real_free ptr (load_u32 (mem s) ptr)]\<rparr>"
  using assms
  by (simp add: free_def get_meta_from_user_ptr_def is_valid_allocation_def real_free_def)

theorem free_foreign_witness:
  "(0x5000 :: u64) \<noteq> 0 \<and>
   meta_magic (mem (static_init zero_memory)) (0x5000 - sizeof_AllocationMeta) \<noteq> ALLOC_MAGIC \<and>
   free demo_env (static_init zero_memory) 0x5000 =
     (static_init zero_memory)\<lparr>real_calls := [Real_free 0x5000 0]\<rparr>"
proof -
  have a: "(0x5000 :: u64) \<noteq> 0"
    by simp
  have b: "meta_magic (mem (static_init zero_memory)) (0x5000 - sizeof_AllocationMeta)
             \<noteq> ALLOC_MAGIC"
    by (simp add: meta_magic_def load_u32_def static_init_def zero_memory_def ALLOC_MAGIC_def)
  have c: "load_u32 (mem (static_init zero_memory)) 0x5000 = 0"
    by (simp add: load_u32_def static_init_def zero_memory_def)
  show ?thesis
    using a b free_foreign [OF a b, of demo_env] by (simp add: c) (simp add: static_init_def)
qed

section \<open>Zeroed allocation\<close>

text \<open>
  C9. \<open>calloc\<close> with a zero count or a zero element size returns null and leaves the
  state as it was (so no event is published and nothing is allocated): the zero product
  goes to \<open>malloc\<close>, which returns null for a zero size.
\<close>

theorem calloc_zero:
  assumes "nmemb = 0 \<or> sz = 0"
  shows "calloc e s nmemb sz = (0, s)"
  using assms by (auto simp add: calloc_def malloc_def)

theorem calloc_zero_witness:
  "((0 :: u64) = 0 \<or> (8 :: u64) = 0) \<and>
   calloc demo_env (static_init zero_memory) 0 8 = (0, static_init zero_memory)"
proof -
  have h: "(0 :: u64) = 0 \<or> (8 :: u64) = 0"
    by simp
  show ?thesis
    using h calloc_zero [OF h, of demo_env "static_init zero_memory"] by simp
qed

text \<open>
  C2. The product is not checked: for the count \<open>2^63 + 1\<close> and the element size 2,
  whose product \<open>2^64 + 2\<close> does not fit the machine word, \<open>calloc\<close> asks the underlying
  allocator for \<open>2 + 36\<close> bytes and returns the non-null user pointer of that block.
\<close>

theorem calloc_overflow:
  "2 ^ 64 \<le> unat (0x8000000000000001 :: u64) * unat (2 :: u64) \<and>
   fst (calloc demo_env (static_init zero_memory) 0x8000000000000001 2) = 0x1024 \<and>
   real_calls (snd (calloc demo_env (static_init zero_memory) 0x8000000000000001 2)) =
     [Real_malloc 38]"
  by (simp add: calloc_def malloc_def real_malloc_def static_init_def demo_env_def
      sizeof_AllocationMeta_def install_def get_timestamp_ns_def track_allocation_def
      get_user_ptr_from_meta_def MAX_TRACKED_ALLOCS_def Let_def split: prod.splits)

section \<open>The one-block state\<close>

lemma one_block_calls: "real_calls one_block = [Real_malloc 100]"
  by (simp add: one_block_def malloc_def real_malloc_def static_init_def demo_env_def
      sizeof_AllocationMeta_def install_def get_timestamp_ns_def track_allocation_def
      get_user_ptr_from_meta_def MAX_TRACKED_ALLOCS_def Let_def split: prod.splits)

lemma one_block_valid: "is_valid_allocation (mem one_block) 0x1000"
  by (simp add: one_block_def malloc_def real_malloc_def static_init_def demo_env_def
      sizeof_AllocationMeta_def install_def get_timestamp_ns_def track_allocation_def
      get_user_ptr_from_meta_def MAX_TRACKED_ALLOCS_def Let_def
      is_valid_allocation_def meta_magic_def load_u32_def store_u32_def store_u64_def
      ALLOC_MAGIC_def split: prod.splits)



section \<open>Frame lemmas\<close>

lemma untrack_loop_frame:
  "mem (untrack_loop u i s) = mem s \<and>
   real_calls (untrack_loop u i s) = real_calls s \<and>
   leak_buffer (untrack_loop u i s) = leak_buffer s \<and>
   next_event_id (untrack_loop u i s) = next_event_id s \<and>
   ticks (untrack_loop u i s) = ticks s \<and>
   total_allocations (untrack_loop u i s) = total_allocations s \<and>
   total_frees (untrack_loop u i s) = total_frees s \<and>
   current_memory_usage (untrack_loop u i s) = current_memory_usage s"
proof (induction u i s rule: untrack_loop.induct)
  case (1 user_ptr i s)
  show ?case
  proof (cases "i < active_alloc_count s \<and> address (active_allocs s i) \<noteq> user_ptr")
    case True
    then show ?thesis
      using "1.IH" by (subst (1 2 3 4 5 6 7 8) untrack_loop.simps) simp
  next
    case False
    then show ?thesis
      by (subst (1 2 3 4 5 6 7 8) untrack_loop.simps) auto
  qed
qed

lemma untrack_allocation_frame:
  "mem (untrack_allocation s u) = mem s \<and>
   real_calls (untrack_allocation s u) = real_calls s \<and>
   leak_buffer (untrack_allocation s u) = leak_buffer s \<and>
   next_event_id (untrack_allocation s u) = next_event_id s \<and>
   ticks (untrack_allocation s u) = ticks s \<and>
   total_allocations (untrack_allocation s u) = total_allocations s \<and>
   total_frees (untrack_allocation s u) = total_frees s \<and>
   current_memory_usage (untrack_allocation s u) = current_memory_usage s"
  unfolding untrack_allocation_def by (rule untrack_loop_frame)

lemma write_leak_event_frame:
  "mem (write_leak_event e s ty d) = mem s \<and>
   real_calls (write_leak_event e s ty d) = real_calls s \<and>
   active_allocs (write_leak_event e s ty d) = active_allocs s \<and>
   active_alloc_count (write_leak_event e s ty d) = active_alloc_count s \<and>
   total_allocations (write_leak_event e s ty d) = total_allocations s \<and>
   total_frees (write_leak_event e s ty d) = total_frees s \<and>
   current_memory_usage (write_leak_event e s ty d) = current_memory_usage s"
  by (simp add: write_leak_event_def get_timestamp_ns_def Let_def split: option.splits prod.splits)

lemma install_frame:
  "fst (install e s hdr sz) = hdr + sizeof_AllocationMeta \<and>
   real_calls (snd (install e s hdr sz)) = real_calls s \<and>
   active_allocs (snd (install e s hdr sz)) = active_allocs s \<and>
   active_alloc_count (snd (install e s hdr sz)) = active_alloc_count s \<and>
   leak_buffer (snd (install e s hdr sz)) = leak_buffer s"
  by (simp add: install_def get_timestamp_ns_def get_user_ptr_from_meta_def Let_def
      split: prod.splits)


section \<open>Consistency of the index\<close>

lemma index_consistent_iff:
  "index_consistent s \<longleftrightarrow>
     0 \<le> active_alloc_count s \<and> active_alloc_count s \<le> MAX_TRACKED_ALLOCS \<and>
     (\<forall>i. 0 \<le> i \<and> i < active_alloc_count s \<longrightarrow>
        address (active_allocs s i) = meta (active_allocs s i) + sizeof_AllocationMeta)"
proof -
  have "(\<forall>k \<in> {0..<nat (active_alloc_count s)}.
           address (active_allocs s (int k)) = meta (active_allocs s (int k)) + sizeof_AllocationMeta)
        \<longleftrightarrow>
        (\<forall>i. 0 \<le> i \<and> i < active_alloc_count s \<longrightarrow>
           address (active_allocs s i) = meta (active_allocs s i) + sizeof_AllocationMeta)"
    (is "?L \<longleftrightarrow> ?R")
  proof
    assume l: ?L
    show ?R
    proof (intro allI impI)
      fix i assume i: "0 \<le> i \<and> i < active_alloc_count s"
      then have "nat i \<in> {0..<nat (active_alloc_count s)}" by simp
      with l have "address (active_allocs s (int (nat i))) =
                   meta (active_allocs s (int (nat i))) + sizeof_AllocationMeta"
        by blast
      with i show "address (active_allocs s i) = meta (active_allocs s i) + sizeof_AllocationMeta"
        by simp
    qed
  next
    assume r: ?R
    show ?L
    proof (intro ballI)
      fix k assume "k \<in> {0..<nat (active_alloc_count s)}"
      then have "0 \<le> int k \<and> int k < active_alloc_count s" by simp
      with r show "address (active_allocs s (int k)) =
                   meta (active_allocs s (int k)) + sizeof_AllocationMeta"
        by blast
    qed
  qed
  then show ?thesis
    by (simp add: index_consistent_def snapshot_def list_all_iff)
qed

lemma index_consistent_cong:
  assumes "active_allocs s' = active_allocs s" "active_alloc_count s' = active_alloc_count s"
  shows "index_consistent s' \<longleftrightarrow> index_consistent s"
  using assms by (simp add: index_consistent_def snapshot_def)

lemma track_allocation_consistent:
  assumes "index_consistent s"
  shows "index_consistent (track_allocation s (get_user_ptr_from_meta hdr) hdr)"
  using assms
  by (auto simp add: index_consistent_iff track_allocation_def get_user_ptr_from_meta_def)

lemma untrack_loop_consistent:
  "index_consistent s \<Longrightarrow> 0 \<le> i \<Longrightarrow> index_consistent (untrack_loop u i s)"
proof (induction u i s rule: untrack_loop.induct)
  case (1 user_ptr i s)
  show ?case
  proof (cases "i < active_alloc_count s")
    case False
    then show ?thesis
      using "1.prems" by (subst untrack_loop.simps) simp
  next
    case in_range: True
    show ?thesis
    proof (cases "address (active_allocs s i) = user_ptr")
      case True
      have "index_consistent
              (s\<lparr>active_allocs := (active_allocs s)(i := active_allocs s (active_alloc_count s - 1)),
                 active_alloc_count := active_alloc_count s - 1\<rparr>)"
        using "1.prems" in_range by (auto simp add: index_consistent_iff)
      then show ?thesis
        using in_range True by (subst untrack_loop.simps) simp
    next
      case False
      have "index_consistent (untrack_loop user_ptr (i + 1) s)"
        using "1.IH" [OF in_range False] "1.prems" by simp
      then show ?thesis
        using in_range False by (subst untrack_loop.simps) simp
    qed
  qed
qed

lemma untrack_allocation_consistent:
  "index_consistent s \<Longrightarrow> index_consistent (untrack_allocation s u)"
  unfolding untrack_allocation_def by (rule untrack_loop_consistent) simp_all


lemma malloc_consistent:
  assumes "index_consistent s"
  shows "index_consistent (snd (malloc e s sz))"
proof (cases "sz = 0 \<or> real_malloc_result e (real_calls s) (sz + sizeof_AllocationMeta) = 0")
  case True
  then have "active_allocs (snd (malloc e s sz)) = active_allocs s \<and>
             active_alloc_count (snd (malloc e s sz)) = active_alloc_count s"
    by (auto simp add: malloc_def real_malloc_def)
  then show ?thesis
    using assms index_consistent_cong by blast
next
  case False
  define r where "r = real_malloc_result e (real_calls s) (sz + sizeof_AllocationMeta)"
  define s1 where "s1 = snd (real_malloc e s (sz + sizeof_AllocationMeta))"
  define s2 where "s2 = snd (install e s1 r sz)"
  define s3 where "s3 = track_allocation s2 (get_user_ptr_from_meta r) r"
  have "index_consistent s1"
    using assms index_consistent_cong [of s1 s] by (simp add: s1_def real_malloc_def)
  then have "index_consistent s2"
    using index_consistent_cong [of s2 s1] install_frame [of e s1 r sz] by (simp add: s2_def)
  then have s3: "index_consistent s3"
    unfolding s3_def by (rule track_allocation_consistent)
  have "active_allocs (snd (malloc e s sz)) = active_allocs s3 \<and>
        active_alloc_count (snd (malloc e s sz)) = active_alloc_count s3"
    using False
    by (simp add: malloc_def case_prod_beta Let_def write_leak_event_frame install_frame
        get_user_ptr_from_meta_def s3_def s2_def s1_def r_def real_malloc_def
        split: option.splits)
  then show ?thesis
    using s3 index_consistent_cong by blast
qed

lemma free_consistent:
  assumes "index_consistent s"
  shows "index_consistent (free e s ptr)"
proof (cases "ptr = 0 \<or> \<not> is_valid_allocation (mem s) (get_meta_from_user_ptr ptr)")
  case True
  then have "active_allocs (free e s ptr) = active_allocs s \<and>
             active_alloc_count (free e s ptr) = active_alloc_count s"
    by (auto simp add: free_def real_free_def)
  then show ?thesis
    using assms index_consistent_cong by blast
next
  case False
  define s1 where
    "s1 = s\<lparr>total_frees := total_frees s + 1,
            current_memory_usage :=
              current_memory_usage s - meta_size (mem s) (get_meta_from_user_ptr ptr)\<rparr>"
  define s2 where "s2 = untrack_allocation s1 ptr"
  have "index_consistent s1"
    using assms index_consistent_cong [of s1 s] by (simp add: s1_def)
  then have s2: "index_consistent s2"
    unfolding s2_def by (rule untrack_allocation_consistent)
  have "active_allocs (free e s ptr) = active_allocs s2 \<and>
        active_alloc_count (free e s ptr) = active_alloc_count s2"
    using False
    by (simp add: free_def Let_def write_leak_event_frame real_free_def s2_def s1_def
        split: option.splits)
  then show ?thesis
    using s2 index_consistent_cong by blast
qed

lemma realloc_consistent:
  assumes "index_consistent s"
  shows "index_consistent (snd (realloc e s ptr sz))"
proof -
  have mem_upd: "index_consistent (t\<lparr>mem := m\<rparr>) \<longleftrightarrow> index_consistent t" for t m
    by (rule index_consistent_cong) simp_all
  have "index_consistent (snd (real_realloc e s ptr sz))"
    using assms index_consistent_cong [of "snd (real_realloc e s ptr sz)" s]
    by (simp add: real_realloc_def)
  then show ?thesis
    using assms malloc_consistent [OF assms, of e sz] free_consistent
    by (simp add: realloc_def case_prod_beta Let_def mem_upd)
qed

lemma calloc_consistent:
  assumes "index_consistent s"
  shows "index_consistent (snd (calloc e s nmemb sz))"
proof -
  have mem_upd: "index_consistent (t\<lparr>mem := m\<rparr>) \<longleftrightarrow> index_consistent t" for t m
    by (rule index_consistent_cong) simp_all
  show ?thesis
    using malloc_consistent [OF assms, of e "nmemb * sz"]
    by (simp add: calloc_def case_prod_beta Let_def mem_upd)
qed

lemma reachable_consistent: "reachable s \<Longrightarrow> index_consistent s"
proof (induction rule: reachable.induct)
  case (start m)
  show ?case
    by (simp add: index_consistent_def static_init_def snapshot_def MAX_TRACKED_ALLOCS_def)
next
  case (init s shm_ok)
  then show ?case
    using index_consistent_cong [of "advanced_agent_init shm_ok s" s]
    by (simp add: advanced_agent_init_def)
next
  case (malloc_step s e sz)
  then show ?case by (simp add: malloc_consistent)
next
  case (free_step s e ptr)
  then show ?case by (simp add: free_consistent)
next
  case (realloc_step s e ptr sz)
  then show ?case by (simp add: realloc_consistent)
next
  case (calloc_step s e nmemb sz)
  then show ?case by (simp add: calloc_consistent)
qed

text \<open>
  C10. In every state reachable from start-up by calls of \<open>malloc\<close>, \<open>free\<close>,
  \<open>realloc\<close> (and \<open>calloc\<close> and the start-up hook), the count of the index lies
  between 0 and \<open>MAX_TRACKED_ALLOCS\<close> and every entry of the used prefix stores a user
  pointer equal to its header pointer plus \<open>sizeof(header)\<close>. Adding a header with its
  user pointer and removing by swap-with-last both preserve this.
\<close>

theorem index_invariant:
  "(reachable s \<longrightarrow> index_consistent s) \<and>
   (index_consistent s \<longrightarrow>
      index_consistent (track_allocation s (get_user_ptr_from_meta hdr) hdr)) \<and>
   (index_consistent s \<longrightarrow> index_consistent (untrack_allocation s user_ptr))"
  using reachable_consistent track_allocation_consistent untrack_allocation_consistent
  by blast

theorem index_invariant_witness:
  "reachable one_block \<and>
   snapshot one_block = [\<lparr>address = 0x1024, meta = 0x1000\<rparr>] \<and>
   index_consistent one_block \<and>
   index_consistent (track_allocation one_block (get_user_ptr_from_meta 0x2000) 0x2000) \<and>
   index_consistent (untrack_allocation one_block 0x1024)"
proof -
  have r: "reachable one_block"
    unfolding one_block_def by (rule reachable.malloc_step) (rule reachable.start)
  have s: "snapshot one_block = [\<lparr>address = 0x1024, meta = 0x1000\<rparr>]"
    by (simp add: one_block_def snapshot_def malloc_def real_malloc_def static_init_def
        demo_env_def sizeof_AllocationMeta_def install_def get_timestamp_ns_def
        track_allocation_def get_user_ptr_from_meta_def MAX_TRACKED_ALLOCS_def Let_def
        split: prod.splits)
  show ?thesis
    using r s index_invariant [of one_block "0x2000" "0x1024"] by simp
qed

section \<open>Freeing an owned pointer\<close>

lemma free_pass_through:
  assumes "ptr \<noteq> 0" "\<not> is_valid_allocation (mem t) (ptr - sizeof_AllocationMeta)"
  shows "free e t ptr = real_free ptr t"
  using assms by (simp add: free_def get_meta_from_user_ptr_def)

lemma free_owned_unfold:
  assumes "ptr \<noteq> 0" "is_valid_allocation (mem s) (ptr - sizeof_AllocationMeta)"
  shows "\<exists>s3. mem s3 = mem s \<and> real_calls s3 = real_calls s \<and>
           free e s ptr =
             real_free (ptr - sizeof_AllocationMeta)
               (s3\<lparr>mem := store_u32 (ptr - sizeof_AllocationMeta) 0 (mem s3)\<rparr>)"
proof -
  define hdr where "hdr = ptr - sizeof_AllocationMeta"
  define s2 where
    "s2 = untrack_allocation
            (s\<lparr>total_frees := total_frees s + 1,
               current_memory_usage := current_memory_usage s - meta_size (mem s) hdr\<rparr>) ptr"
  define s3 where
    "s3 = (case leak_buffer s2 of
             None \<Rightarrow> s2
           | Some b \<Rightarrow>
               write_leak_event e
                 (s2\<lparr>leak_buffer :=
                       Some (b\<lparr>buf_total_frees := buf_total_frees b + 1,
                               current_memory := current_memory b - meta_size (mem s2) hdr\<rparr>)\<rparr>)
                 EVENT_FREE
                 (Some \<lparr>data_address = ptr, data_size = meta_size (mem s2) hdr,
                        data_time = meta_alloc_time (mem s2) hdr,
                        data_site_id = meta_site_id (mem s2) hdr\<rparr>))"
  have s2: "mem s2 = mem s \<and> real_calls s2 = real_calls s"
    by (simp add: s2_def untrack_allocation_frame)
  have s3: "mem s3 = mem s \<and> real_calls s3 = real_calls s"
    using s2 by (simp add: s3_def write_leak_event_frame split: option.splits)
  have "free e s ptr = real_free hdr (s3\<lparr>mem := store_u32 hdr 0 (mem s3)\<rparr>)"
    using assms
    by (simp add: free_def get_meta_from_user_ptr_def Let_def s3_def s2_def hdr_def
        split: option.splits)
  then show ?thesis
    using s3 unfolding hdr_def by blast
qed

text \<open>
  C8. When \<open>free\<close> services an owned pointer, the state it hands to the underlying
  free already has 0 in the header's magic field: the one call it makes to the underlying
  free is recorded with the header base \<open>ptr - sizeof(header)\<close>, which differs from
  \<open>ptr\<close>, and with the magic 0 found there at the time of the call. Afterwards the
  header is no longer valid, and a second \<open>free\<close> of the same pointer only passes the
  pointer to the underlying free.
\<close>

theorem free_owned:
  assumes "ptr \<noteq> 0"
    and "is_valid_allocation (mem s) (ptr - sizeof_AllocationMeta)"
  shows "(\<exists>s'. meta_magic (mem s') (ptr - sizeof_AllocationMeta) = 0 \<and>
               free e s ptr = real_free (ptr - sizeof_AllocationMeta) s') \<and>
         real_calls (free e s ptr) =
           real_calls s @ [Real_free (ptr - sizeof_AllocationMeta) 0] \<and>
         ptr - sizeof_AllocationMeta \<noteq> ptr \<and>
         \<not> is_valid_allocation (mem (free e s ptr)) (ptr - sizeof_AllocationMeta) \<and>
         free e' (free e s ptr) ptr = real_free ptr (free e s ptr)"
proof -
  obtain s3 where s3: "mem s3 = mem s" "real_calls s3 = real_calls s"
    and fr: "free e s ptr =
               real_free (ptr - sizeof_AllocationMeta)
                 (s3\<lparr>mem := store_u32 (ptr - sizeof_AllocationMeta) 0 (mem s3)\<rparr>)"
    using free_owned_unfold [OF assms] by blast
  have magic: "meta_magic (mem (s3\<lparr>mem := store_u32 (ptr - sizeof_AllocationMeta) 0 (mem s3)\<rparr>))
                 (ptr - sizeof_AllocationMeta) = 0"
    by (simp add: meta_magic_def load_store_u32)
  have after: "meta_magic (mem (free e s ptr)) (ptr - sizeof_AllocationMeta) = 0"
    using magic by (simp add: fr real_free_def)
  then have invalid: "\<not> is_valid_allocation (mem (free e s ptr)) (ptr - sizeof_AllocationMeta)"
    by (simp add: is_valid_allocation_def ALLOC_MAGIC_def)
  have again: "free e' (free e s ptr) ptr = real_free ptr (free e s ptr)"
    using assms(1) invalid by (rule free_pass_through)
  have calls: "real_calls (free e s ptr) =
                 real_calls s @ [Real_free (ptr - sizeof_AllocationMeta) 0]"
    by (simp add: fr real_free_def s3 load_store_u32)
  have "ptr - sizeof_AllocationMeta \<noteq> ptr"
    by (simp add: sizeof_AllocationMeta_def)
  then show ?thesis
    using magic fr calls invalid again by blast
qed

theorem free_owned_witness:
  "(0x1024 :: u64) \<noteq> 0 \<and>
   is_valid_allocation (mem one_block) (0x1024 - sizeof_AllocationMeta) \<and>
   real_calls (free demo_env one_block 0x1024) = [Real_malloc 100, Real_free 0x1000 0] \<and>
   \<not> is_valid_allocation (mem (free demo_env one_block 0x1024)) 0x1000 \<and>
   free demo_env (free demo_env one_block 0x1024) 0x1024 =
     real_free 0x1024 (free demo_env one_block 0x1024)"
proof -
  have a: "(0x1024 :: u64) \<noteq> 0"
    by simp
  have c: "is_valid_allocation (mem one_block) (0x1024 - sizeof_AllocationMeta)"
    using one_block_valid by (simp add: sizeof_AllocationMeta_def)
  note f = free_owned [OF a c, of demo_env demo_env]
  have f1: "real_calls (free demo_env one_block 0x1024) = [Real_malloc 100, Real_free 0x1000 0]"
    using f [THEN conjunct2, THEN conjunct1] one_block_calls
    by (simp add: sizeof_AllocationMeta_def)
  have f2: "\<not> is_valid_allocation (mem (free demo_env one_block 0x1024)) 0x1000"
    using f [THEN conjunct2, THEN conjunct2, THEN conjunct2, THEN conjunct1]
    by (simp add: sizeof_AllocationMeta_def)
  note f3 = f [THEN conjunct2, THEN conjunct2, THEN conjunct2, THEN conjunct2]
  show ?thesis
    using a c f1 f2 f3 by blast
qed

section \<open>Reallocation\<close>





















section \<open>The order of a publication\<close>

text \<open>
  C1. A publication by \<open>write_leak_event\<close> is the store of the record into the slot
  \<open>write_index % 1000\<close> followed directly by the increment of \<open>write_index\<close>: no
  memory barrier stands between them, or anywhere in it. The basic monitor's
  \<open>write_to_shared_memory\<close> has the barrier between its store and its increment.
\<close>

theorem write_leak_event_no_fence:
  "(\<exists>ev. leak_buffer (write_leak_event e (s\<lparr>leak_buffer := Some b\<rparr>) ty d) =
           Some (foldl exec_shm_op b (write_leak_event_ops b ev))) \<and>
   write_leak_event_ops b ev' =
     [Store_slot (write_index b smod 1000) ev', Advance_write_index] \<and>
   Full_fence \<notin> set (write_leak_event_ops b ev') \<and>
   write_to_shared_memory_ops b' d' =
     [Store_slot (sb_write_index b' smod 1000) d', Full_fence, Advance_write_index]"
proof -
  have "\<exists>ev. leak_buffer (write_leak_event e (s\<lparr>leak_buffer := Some b\<rparr>) ty d) =
           Some (foldl exec_shm_op b (write_leak_event_ops b ev))"
    by (simp add: write_leak_event_def get_timestamp_ns_def Let_def split: prod.splits) blast
  then show ?thesis
    by (simp add: write_leak_event_ops_def write_to_shared_memory_ops_def
        LEAK_BUFFER_SIZE_def BUFFER_SIZE_def)
qed

end
